theory Spec2Isabelle
  imports Main "HOL-Library.Word" "HOL-Library.Sublist"
begin

section \<open>The music generation gateway of \<open>index.js\<close>\<close>

text \<open>
  The server keeps three module-level variables (\<open>lastCallAtMs\<close>, \<open>lastSuccessAtMs\<close>,
  \<open>isGenerating\<close>) and serves \<open>/api/generate-music\<close> with an \<open>async\<close> handler that
  calls \<open>generateFromPrompt\<close>. Node runs a handler without interruption until it reaches an
  \<open>await\<close>; there it suspends and other requests may run. The model follows that: every
  function below is one uninterrupted segment of the source, from an entry point (a request
  arrives, a timer fires, the model client settles) to the next \<open>await\<close> or to the response.
\<close>

subsection \<open>JavaScript values\<close>

text \<open>A JavaScript string is a sequence of UTF-16 code units; \<open>length\<close> counts them.\<close>

type_synonym js_string = "16 word list"

definition lit :: "string \<Rightarrow> js_string" where
  "lit s = map (\<lambda>c. of_nat (of_char c)) s"

text \<open>
  The code units that \<open>String.prototype.trim\<close> strips: the WhiteSpace and LineTerminator
  productions of ECMAScript.
\<close>

definition is_js_space :: "16 word \<Rightarrow> bool" where
  "is_js_space c \<longleftrightarrow>
     c \<in> set [0x09, 0x0A, 0x0B, 0x0C, 0x0D, 0x20, 0xA0, 0x1680,
               0x2000, 0x2001, 0x2002, 0x2003, 0x2004, 0x2005, 0x2006, 0x2007,
               0x2008, 0x2009, 0x200A, 0x2028, 0x2029, 0x202F, 0x205F, 0x3000, 0xFEFF]"

definition trim :: "js_string \<Rightarrow> js_string" where
  "trim s = rev (dropWhile is_js_space (rev (dropWhile is_js_space s)))"

text \<open>\<open>s.includes(sub)\<close>: \<open>sub\<close> occurs in \<open>s\<close> as a contiguous run of code units.\<close>

fun str_includes :: "js_string \<Rightarrow> js_string \<Rightarrow> bool" where
  "str_includes [] sub = (sub = [])"
| "str_includes (c # cs) sub = (prefix sub (c # cs) \<or> str_includes cs sub)"

text \<open>
  What a request field (\<open>req.body.prompt\<close>, \<open>req.query.model\<close>, ...) can hold. Numbers are
  only tested for their type here, so their value is kept as an integer.
\<close>

datatype js_value =
    JUndefined
  | JNull
  | JBool bool
  | JNum int
  | JStr js_string
  | JObject

fun truthy :: "js_value \<Rightarrow> bool" where
  "truthy JUndefined = False"
| "truthy JNull = False"
| "truthy (JBool b) = b"
| "truthy (JNum n) = (n \<noteq> 0)"
| "truthy (JStr s) = (s \<noteq> [])"
| "truthy JObject = True"

fun is_string :: "js_value \<Rightarrow> bool" where
  "is_string (JStr s) = True"
| "is_string v = False"

fun str_of :: "js_value \<Rightarrow> js_string" where
  "str_of (JStr s) = s"
| "str_of v = []"

text \<open>
  A thrown \<open>Error\<close> object with its \<open>name\<close> and \<open>message\<close>. \<open>String(err?.message || err)\<close>
  is the message when it is non-empty; otherwise \<open>String(err)\<close>, which for an empty message
  is the name.
\<close>

datatype js_error = Error (err_name: js_string) (err_message: js_string)

definition err_text :: "js_error \<Rightarrow> js_string" where
  "err_text err = (if err_message err \<noteq> [] then err_message err else err_name err)"

definition new_Error :: "js_string \<Rightarrow> js_error" where
  "new_Error msg = Error (lit ''Error'') msg"

subsection \<open>Configuration and gateway state\<close>

text \<open>
  The settings read from the environment. A variable is \<open>Some n\<close> when it is set to the
  decimal integer \<open>n\<close> and \<open>None\<close> when it is unset or empty, where \<open>process.env.X || d\<close>
  takes the default.
\<close>

record environment =
  VERTEX_MODEL :: "js_string option"
  VERTEX_MAX_ATTEMPTS :: "int option"
  VERTEX_BASE_DELAY_MS :: "int option"
  VERTEX_MIN_INTERVAL_MS :: "int option"
  VERTEX_HARD_COOLDOWN_MS :: "int option"

record config =
  DEFAULT_MODEL :: js_string
  MAX_ATTEMPTS :: int
  BASE_DELAY_MS :: int
  MIN_INTERVAL_MS :: int
  HARD_COOLDOWN_MS :: int

definition or_default :: "'a option \<Rightarrow> 'a \<Rightarrow> 'a" where
  "or_default v d = (case v of None \<Rightarrow> d | Some x \<Rightarrow> x)"

definition load_config :: "environment \<Rightarrow> config" where
  "load_config env =
     \<lparr> DEFAULT_MODEL =
         (case VERTEX_MODEL env of None \<Rightarrow> lit ''lyria-002''
          | Some m \<Rightarrow> if m = [] then lit ''lyria-002'' else m),
       MAX_ATTEMPTS = max 1 (or_default (VERTEX_MAX_ATTEMPTS env) 1),
       BASE_DELAY_MS = max 200 (or_default (VERTEX_BASE_DELAY_MS env) 1200),
       MIN_INTERVAL_MS = max 0 (or_default (VERTEX_MIN_INTERVAL_MS env) 2000),
       HARD_COOLDOWN_MS = max 0 (or_default (VERTEX_HARD_COOLDOWN_MS env) 7000) \<rparr>"

definition no_environment :: environment where
  "no_environment =
     \<lparr> VERTEX_MODEL = None, VERTEX_MAX_ATTEMPTS = None, VERTEX_BASE_DELAY_MS = None,
       VERTEX_MIN_INTERVAL_MS = None, VERTEX_HARD_COOLDOWN_MS = None \<rparr>"

record gateway_state =
  lastCallAtMs :: int
  lastSuccessAtMs :: int
  isGenerating :: bool

definition initial_state :: gateway_state where
  "initial_state = \<lparr> lastCallAtMs = 0, lastSuccessAtMs = 0, isGenerating = False \<rparr>"

subsection \<open>Requests, responses and the model client\<close>

record request =
  prompt :: js_value
  model :: js_value

datatype body =
    ErrorJson js_string              \<comment> \<open>\<open>{ error }\<close>\<close>
  | BusyJson js_string int           \<comment> \<open>\<open>{ error, retryAfterMs }\<close>\<close>
  | AudioJson js_string              \<comment> \<open>\<open>{ audioData }\<close>\<close>
  | FailureJson js_string js_string  \<comment> \<open>\<open>{ error, detail }\<close>\<close>

record http_response =
  status :: nat
  json :: body

text \<open>The four \<open>res.status(...).json(...)\<close> shapes of the handlers (200 when unset).\<close>

definition busy_response :: "int \<Rightarrow> http_response" where
  "busy_response cooldownLeft =
     \<lparr>status = 429, json = BusyJson (lit ''Server busy, try again'') cooldownLeft\<rparr>"

definition bad_request :: "js_string \<Rightarrow> http_response" where
  "bad_request msg = \<lparr>status = 400, json = ErrorJson msg\<rparr>"

definition audio_response :: "js_string \<Rightarrow> http_response" where
  "audio_response audioBase64 = \<lparr>status = 200, json = AudioJson audioBase64\<rparr>"

definition failure_response :: "js_error \<Rightarrow> http_response" where
  "failure_response err =
     \<lparr>status = 500, json = FailureJson (lit ''Failed to generate music'') (err_text err)\<rparr>"

text \<open>
  A content part of the model's response: \<open>part?.audioData?.data\<close> and
  \<open>part?.inlineData?.data\<close>, \<open>None\<close> where the chain yields \<open>undefined\<close>. A response is the
  list of its candidates, each with its \<open>content.parts\<close> (empty when absent).
\<close>

record part =
  audioData :: "js_string option"
  inlineData :: "js_string option"

type_synonym response = "part list list"

datatype reply = Resolved response | Rejected js_error

subsection \<open>\<open>shouldRetry\<close>\<close>

definition shouldRetry :: "js_error \<Rightarrow> bool" where
  "shouldRetry err =
     (let s = err_text err in
        str_includes s (lit ''429'') \<or>
        str_includes s (lit ''RESOURCE_EXHAUSTED'') \<or>
        str_includes s (lit ''rate'') \<or>
        str_includes s (lit ''Quota'') \<or>
        str_includes s (lit ''503''))"

subsection \<open>\<open>generateFromPrompt\<close>\<close>

text \<open>
  The points where \<open>generateFromPrompt\<close> is suspended: in the pacing \<open>sleep\<close>, in
  \<open>model.generateContent\<close> of an attempt, and in the backoff \<open>sleep\<close> after a failed attempt
  (with \<open>lastErr\<close>). Each keeps the request payload text and the model name.
\<close>

datatype timer_task =
    Pacing js_string js_string
  | Backoff js_string js_string int js_error

datatype call_task = Attempt js_string js_string int

datatype 'r outcome =
    Finished 'r
  | Sleep int timer_task
  | GenerateContent call_task

type_synonym gen_result = "js_error + js_string"

definition requestPayload :: "js_string \<Rightarrow> js_string" where
  "requestPayload p =
     p @ [0x0A, 0x0A] @
     lit ''Please generate approximately 15 seconds of music as high-quality audio.''"

text \<open>
  The head of the \<open>for\<close> loop: test \<open>attempt <= MAX_ATTEMPTS\<close>, then call the model.
  \<open>getModel\<close> only builds the client object for \<open>modelName\<close>; it is taken not to throw.
\<close>

definition for_attempt ::
  "config \<Rightarrow> js_string \<Rightarrow> js_string \<Rightarrow> int \<Rightarrow> js_error option \<Rightarrow> gen_result outcome" where
  "for_attempt cfg payload modelName attempt lastErr =
     (if attempt \<le> MAX_ATTEMPTS cfg then GenerateContent (Attempt payload modelName attempt)
      else Finished (Inl (case lastErr of Some e \<Rightarrow> e
                          | None \<Rightarrow> new_Error (lit ''UNKNOWN_ERROR''))))"

text \<open>Entry of \<open>generateFromPrompt\<close>, up to the pacing \<open>sleep\<close> or the first call.\<close>

definition generateFromPrompt ::
  "config \<Rightarrow> gateway_state \<Rightarrow> js_string \<Rightarrow> js_string \<Rightarrow> int \<Rightarrow> gen_result outcome" where
  "generateFromPrompt cfg st p modelName now =
     (let payload = requestPayload p;
          since = now - lastCallAtMs st
      in if since < MIN_INTERVAL_MS cfg
         then Sleep (MIN_INTERVAL_MS cfg - since) (Pacing payload modelName)
         else for_attempt cfg payload modelName 1 None)"

text \<open>The scan of the parts: the first truthy \<open>audioData.data\<close> or \<open>inlineData.data\<close>.\<close>

definition has_data :: "js_string option \<Rightarrow> bool" where
  "has_data d = (case d of None \<Rightarrow> False | Some s \<Rightarrow> s \<noteq> [])"

fun scan_parts :: "part list \<Rightarrow> js_string option" where
  "scan_parts [] = None"
| "scan_parts (p # ps) =
     (if has_data (audioData p) then audioData p
      else if has_data (inlineData p) then inlineData p
      else scan_parts ps)"

definition first_parts :: "response \<Rightarrow> part list" where
  "first_parts r = (case r of [] \<Rightarrow> [] | c # _ \<Rightarrow> c)"

text \<open>
  The \<open>catch\<close> block of the loop. \<open>delay\<close> is the value that line 114 computes in floating
  point from \<open>BASE_DELAY_MS\<close>, the attempt and \<open>Math.random()\<close>; it is supplied from outside.
\<close>

definition catch_attempt ::
  "config \<Rightarrow> (int \<Rightarrow> int) \<Rightarrow> call_task \<Rightarrow> js_error \<Rightarrow> gen_result outcome" where
  "catch_attempt cfg delay task err =
     (case task of Attempt payload modelName attempt \<Rightarrow>
        if \<not> shouldRetry err \<or> attempt = MAX_ATTEMPTS cfg then Finished (Inl err)
        else Sleep (delay attempt) (Backoff payload modelName attempt err))"

text \<open>\<open>model.generateContent\<close> has settled; \<open>now\<close> is what \<open>Date.now()\<close> then returns.\<close>

definition on_settled ::
  "config \<Rightarrow> (int \<Rightarrow> int) \<Rightarrow> gateway_state \<Rightarrow> call_task \<Rightarrow> reply \<Rightarrow> int
     \<Rightarrow> gateway_state \<times> gen_result outcome" where
  "on_settled cfg delay st task r now =
     (case r of
        Rejected err \<Rightarrow> (st, catch_attempt cfg delay task err)
      | Resolved resp \<Rightarrow>
          (let st' = st\<lparr>lastCallAtMs := now, lastSuccessAtMs := now\<rparr> in
           case scan_parts (first_parts resp) of
             None \<Rightarrow> (st', catch_attempt cfg delay task (new_Error (lit ''NO_AUDIO_IN_RESPONSE'')))
           | Some audioBase64 \<Rightarrow>
               if audioBase64 = []
               then (st', catch_attempt cfg delay task (new_Error (lit ''NO_AUDIO_IN_RESPONSE'')))
               else (st', Finished (Inr audioBase64))))"

text \<open>A \<open>sleep\<close> has ended: the pacing one enters the loop, the backoff one increments \<open>attempt\<close>.\<close>

definition on_timer :: "config \<Rightarrow> timer_task \<Rightarrow> gen_result outcome" where
  "on_timer cfg task =
     (case task of
        Pacing payload modelName \<Rightarrow> for_attempt cfg payload modelName 1 None
      | Backoff payload modelName attempt err \<Rightarrow>
          for_attempt cfg payload modelName (attempt + 1) (Some err))"

subsection \<open>The handler of \<open>/api/generate-music\<close>\<close>

text \<open>
  The \<open>POST\<close> and the \<open>GET\<close> handler differ only in where they read \<open>prompt\<close> and \<open>model\<close>
  (\<open>req.body\<close>, \<open>req.query\<close>) and in a log line; \<open>request\<close> holds the two values read.
  \<open>respond\<close> is the end of the handler: the lines after the \<open>await\<close> and the \<open>catch\<close> block.
\<close>

definition respond ::
  "gateway_state \<times> gen_result outcome \<Rightarrow> gateway_state \<times> http_response outcome" where
  "respond x =
     (case x of (st, out) \<Rightarrow>
        (case out of
           Finished (Inr audioBase64) \<Rightarrow>
             (st\<lparr>isGenerating := False\<rparr>, Finished (audio_response audioBase64))
         | Finished (Inl err) \<Rightarrow>
             (st\<lparr>isGenerating := False\<rparr>, Finished (failure_response err))
         | Sleep ms t \<Rightarrow> (st, Sleep ms t)
         | GenerateContent c \<Rightarrow> (st, GenerateContent c)))"

text \<open>
  \<open>typeof overrideModel === 'string' && overrideModel.trim() ? overrideModel.trim() :
  DEFAULT_MODEL\<close>
\<close>

definition modelName_of :: "config \<Rightarrow> request \<Rightarrow> js_string" where
  "modelName_of cfg req =
     (if is_string (model req) \<and> trim (str_of (model req)) \<noteq> []
      then trim (str_of (model req)) else DEFAULT_MODEL cfg)"

definition handler ::
  "config \<Rightarrow> gateway_state \<Rightarrow> request \<Rightarrow> int \<Rightarrow> gateway_state \<times> http_response outcome" where
  "handler cfg st req now =
     (if isGenerating st then
        (let cooldownLeft = max 0 (HARD_COOLDOWN_MS cfg - (now - lastSuccessAtMs st)) in
         (st, Finished (busy_response cooldownLeft)))
      else if \<not> truthy (prompt req) \<or> \<not> is_string (prompt req) then
        (st, Finished (bad_request (lit ''Invalid prompt'')))
      else
        (let promptText = trim (str_of (prompt req)) in
         if length promptText = 0 then
           (st, Finished (bad_request (lit ''Prompt cannot be empty'')))
         else if length promptText > 500 then
           (st, Finished (bad_request (lit ''Prompt is too long (max 500 chars)'')))
         else
           (let modelName = modelName_of cfg req;
                st' = st\<lparr>isGenerating := True\<rparr>
            in respond (st', generateFromPrompt cfg st' promptText modelName now))))"

definition handler_settled ::
  "config \<Rightarrow> (int \<Rightarrow> int) \<Rightarrow> gateway_state \<Rightarrow> call_task \<Rightarrow> reply \<Rightarrow> int
     \<Rightarrow> gateway_state \<times> http_response outcome" where
  "handler_settled cfg delay st task r now = respond (on_settled cfg delay st task r now)"

definition handler_timer ::
  "config \<Rightarrow> gateway_state \<Rightarrow> timer_task \<Rightarrow> gateway_state \<times> http_response outcome" where
  "handler_timer cfg st task = respond (st, on_timer cfg task)"

subsection \<open>Running one request to its response\<close>

text \<open>
  \<open>setTimeout(r, ms)\<close> of Node: a delay below 1 or above \<open>2^31 - 1\<close> is set to 1.
\<close>

definition timeout_ms :: "int \<Rightarrow> int" where
  "timeout_ms ms = (if ms < 1 \<or> 2147483647 < ms then 1 else ms)"

text \<open>
  The surroundings of one request: for each \<open>sleep\<close> how much later than asked the timer
  fires, for each call of the model client how long it takes and how it settles. The clock is
  taken to be monotone and a timer never to fire early. A request whose surroundings run out
  is still suspended (\<open>None\<close>): nothing in the source bounds the time the model client takes.
  The result carries the calls of the model client with the time each was dispatched.
\<close>

type_synonym call_log = "(int \<times> call_task) list"

fun run ::
  "config \<Rightarrow> (int \<Rightarrow> int) \<Rightarrow> int \<Rightarrow> gateway_state \<times> http_response outcome
     \<Rightarrow> nat list \<Rightarrow> (nat \<times> reply) list
     \<Rightarrow> (gateway_state \<times> http_response \<times> call_log) option" where
  "run cfg delay now (st, Finished r) lates replies = Some (st, r, [])"
| "run cfg delay now (st, Sleep ms t) [] replies = None"
| "run cfg delay now (st, Sleep ms t) (late # lates) replies =
     run cfg delay (now + timeout_ms ms + int late) (handler_timer cfg st t) lates replies"
| "run cfg delay now (st, GenerateContent c) lates [] = None"
| "run cfg delay now (st, GenerateContent c) lates ((took, r) # replies) =
     (case run cfg delay (now + int took)
             (handler_settled cfg delay st c r (now + int took)) lates replies of
        None \<Rightarrow> None
      | Some (st', resp, calls) \<Rightarrow> Some (st', resp, (now, c) # calls))"

definition serve ::
  "config \<Rightarrow> (int \<Rightarrow> int) \<Rightarrow> gateway_state \<Rightarrow> request \<Rightarrow> int
     \<Rightarrow> nat list \<Rightarrow> (nat \<times> reply) list
     \<Rightarrow> (gateway_state \<times> http_response \<times> call_log) option" where
  "serve cfg delay st req now lates replies =
     run cfg delay now (handler cfg st req now) lates replies"

subsection \<open>The spec's wording, for comparison with the code\<close>

text \<open>
  An error is retryable when its stringified message contains any of the five signatures.
\<close>

definition retryable_signatures :: "js_string list" where
  "retryable_signatures =
     [lit ''429'', lit ''RESOURCE_EXHAUSTED'', lit ''rate'', lit ''Quota'', lit ''503'']"

definition spec_retryable :: "js_error \<Rightarrow> bool" where
  "spec_retryable err \<longleftrightarrow> (\<exists>sub\<in>set retryable_signatures. sublist sub (err_text err))"




subsection \<open>Invariants of a run\<close>

text \<open>
  A segment has released the gate when, if it ends the request, \<open>isGenerating\<close> is false.
\<close>

definition released :: "gateway_state \<times> http_response outcome \<Rightarrow> bool" where
  "released x = (case snd x of Finished r \<Rightarrow> \<not> isGenerating (fst x) | _ \<Rightarrow> True)"

text \<open>
  A segment that ends the request with status 200 at time \<open>now\<close> has stamped
  \<open>lastCallAtMs\<close> no earlier than \<open>now\<close>.
\<close>

definition stamp_ok :: "int \<Rightarrow> gateway_state \<times> http_response outcome \<Rightarrow> bool" where
  "stamp_ok now x =
     (case snd x of Finished r \<Rightarrow> status r = 200 \<longrightarrow> now \<le> lastCallAtMs (fst x) | _ \<Rightarrow> True)"

subsection \<open>Sample inputs\<close>

definition default_config :: config where
  "default_config = load_config no_environment"

definition three_attempts :: config where
  "three_attempts = load_config (no_environment\<lparr>VERTEX_MAX_ATTEMPTS := Some 3\<rparr>)"

text \<open>The backoff delay when \<open>Math.random()\<close> returns 0.5, for the default base delay.\<close>

definition no_jitter :: "int \<Rightarrow> int" where
  "no_jitter attempt = 1200 * 2 ^ nat (attempt - 1)"

definition sample_request :: request where
  "sample_request = \<lparr>prompt = JStr (lit ''calm piano''), model = JUndefined\<rparr>"

definition sample_payload :: js_string where
  "sample_payload = requestPayload (lit ''calm piano'')"

definition sample_call :: "int \<Rightarrow> call_task" where
  "sample_call attempt = Attempt sample_payload (lit ''lyria-002'') attempt"

definition busy_state :: gateway_state where
  "busy_state = \<lparr>lastCallAtMs = 1000, lastSuccessAtMs = 1000, isGenerating = True\<rparr>"

definition idle_state :: gateway_state where
  "idle_state = \<lparr>lastCallAtMs = 1000, lastSuccessAtMs = 1000, isGenerating = False\<rparr>"

text \<open>The state after a call that resolved at time 5300.\<close>

definition after_first :: gateway_state where
  "after_first = \<lparr>lastCallAtMs = 5300, lastSuccessAtMs = 5300, isGenerating = False\<rparr>"

definition audio_part :: "string \<Rightarrow> part" where
  "audio_part d = \<lparr>audioData = Some (lit d), inlineData = None\<rparr>"

definition inline_part :: "string \<Rightarrow> part" where
  "inline_part d = \<lparr>audioData = None, inlineData = Some (lit d)\<rparr>"

definition both_part :: "string \<Rightarrow> string \<Rightarrow> part" where
  "both_part a b = \<lparr>audioData = Some (lit a), inlineData = Some (lit b)\<rparr>"

definition empty_part :: part where
  "empty_part = \<lparr>audioData = None, inlineData = None\<rparr>"

definition error_429 :: js_error where
  "error_429 = new_Error (lit ''429 Too Many Requests'')"

definition error_401 :: js_error where
  "error_401 = new_Error (lit ''401 Unauthorized'')"

section \<open>Properties\<close>

subsection \<open>Strings\<close>

lemma str_includes_sublist: "str_includes s sub \<longleftrightarrow> sublist sub s"
  by (induction s) (simp_all add: sublist_Cons_right)

lemma shouldRetry_spec: "shouldRetry err \<longleftrightarrow> spec_retryable err"
  by (simp add: shouldRetry_def spec_retryable_def retryable_signatures_def
      str_includes_sublist Let_def)

lemma trim_empty_iff: "trim s = [] \<longleftrightarrow> (\<forall>c\<in>set s. is_js_space c)"
proof
  assume "trim s = []"
  then have all: "\<forall>c\<in>set (dropWhile is_js_space s). is_js_space c"
    by (simp add: trim_def)
  have "dropWhile is_js_space s = []"
  proof (rule ccontr)
    assume ne: "dropWhile is_js_space s \<noteq> []"
    then have "\<not> is_js_space (hd (dropWhile is_js_space s))"
      by (rule hd_dropWhile)
    moreover from ne have "hd (dropWhile is_js_space s) \<in> set (dropWhile is_js_space s)"
      by simp
    ultimately show False using all by blast
  qed
  then show "\<forall>c\<in>set s. is_js_space c" by simp
next
  assume "\<forall>c\<in>set s. is_js_space c"
  then have dw: "dropWhile is_js_space s = []" by simp
  show "trim s = []" unfolding trim_def dw by simp
qed

lemma string_nonempty_truthy: "is_string v \<Longrightarrow> trim (str_of v) \<noteq> [] \<Longrightarrow> truthy v"
  by (cases v) (auto simp: trim_def)

lemma no_audio_not_retryable: "\<not> shouldRetry (new_Error (lit ''NO_AUDIO_IN_RESPONSE''))"
  by (simp add: shouldRetry_def new_Error_def err_text_def lit_def)

subsection \<open>The segments of the handler\<close>

lemma handler_busy:
  "isGenerating st \<Longrightarrow>
     handler cfg st req now =
       (st, Finished (busy_response (max 0 (HARD_COOLDOWN_MS cfg - (now - lastSuccessAtMs st)))))"
  by (simp add: handler_def)

lemma handler_blank:
  assumes "\<not> isGenerating st" "is_string (prompt req)" "trim (str_of (prompt req)) = []"
  shows "handler cfg st req now =
           (st, Finished (bad_request (if str_of (prompt req) = [] then lit ''Invalid prompt''
                                       else lit ''Prompt cannot be empty'')))"
  using assms by (cases "prompt req") (simp_all add: handler_def)

lemma handler_accept:
  assumes "\<not> isGenerating st" "is_string (prompt req)"
    "trim (str_of (prompt req)) \<noteq> []" "length (trim (str_of (prompt req))) \<le> 500"
  shows "handler cfg st req now =
           respond (st\<lparr>isGenerating := True\<rparr>,
                    generateFromPrompt cfg (st\<lparr>isGenerating := True\<rparr>)
                      (trim (str_of (prompt req))) (modelName_of cfg req) now)"
  using assms string_nonempty_truthy [of "prompt req"]
  by (simp add: handler_def Let_def)

lemma handler_cases:
  "(\<exists>r. handler cfg st req now = (st, Finished r)) \<or>
   handler cfg st req now =
     respond (st\<lparr>isGenerating := True\<rparr>,
              generateFromPrompt cfg (st\<lparr>isGenerating := True\<rparr>)
                (trim (str_of (prompt req))) (modelName_of cfg req) now)"
  by (simp add: handler_def Let_def)

lemma handler_pacing:
  assumes "\<not> isGenerating st" "is_string (prompt req)"
    "trim (str_of (prompt req)) \<noteq> []" "length (trim (str_of (prompt req))) \<le> 500"
    "now - lastCallAtMs st < MIN_INTERVAL_MS cfg"
  shows "handler cfg st req now =
           (st\<lparr>isGenerating := True\<rparr>,
            Sleep (MIN_INTERVAL_MS cfg - (now - lastCallAtMs st))
              (Pacing (requestPayload (trim (str_of (prompt req)))) (modelName_of cfg req)))"
  using assms by (simp add: handler_accept generateFromPrompt_def respond_def)

lemma settled_rejected:
  "handler_settled cfg delay st (Attempt p m attempt) (Rejected err) now =
     (if shouldRetry err \<and> attempt \<noteq> MAX_ATTEMPTS cfg
      then (st, Sleep (delay attempt) (Backoff p m attempt err))
      else (st\<lparr>isGenerating := False\<rparr>, Finished (failure_response err)))"
  by (simp add: handler_settled_def on_settled_def catch_attempt_def respond_def)

lemma scan_parts_nonempty: "scan_parts ps = Some a \<Longrightarrow> a \<noteq> []"
  by (induction ps) (auto simp: has_data_def split: if_splits option.splits)

lemma settled_resolved_audio:
  "scan_parts (first_parts resp) = Some a \<Longrightarrow>
     handler_settled cfg delay st task (Resolved resp) now =
       (st\<lparr>lastCallAtMs := now, lastSuccessAtMs := now, isGenerating := False\<rparr>,
        Finished (audio_response a))"
  using scan_parts_nonempty [of "first_parts resp" a]
  by (simp add: handler_settled_def on_settled_def respond_def)

lemma settled_resolved_no_audio:
  "scan_parts (first_parts resp) = None \<Longrightarrow>
     handler_settled cfg delay st task (Resolved resp) now =
       (st\<lparr>lastCallAtMs := now, lastSuccessAtMs := now, isGenerating := False\<rparr>,
        Finished (failure_response (new_Error (lit ''NO_AUDIO_IN_RESPONSE''))))"
  using no_audio_not_retryable
  by (cases task)
     (simp add: handler_settled_def on_settled_def respond_def catch_attempt_def)

lemma timer_backoff:
  "attempt < MAX_ATTEMPTS cfg \<Longrightarrow>
     handler_timer cfg st (Backoff p m attempt err) =
       (st, GenerateContent (Attempt p m (attempt + 1)))"
  by (simp add: handler_timer_def on_timer_def for_attempt_def respond_def)

lemma timer_pacing:
  "1 \<le> MAX_ATTEMPTS cfg \<Longrightarrow>
     handler_timer cfg st (Pacing p m) = (st, GenerateContent (Attempt p m 1))"
  by (simp add: handler_timer_def on_timer_def for_attempt_def respond_def)

lemma timeout_ms_pos: "0 < timeout_ms ms"
  by (simp add: timeout_ms_def)

subsection \<open>Evaluating the sample inputs\<close>

lemma default_config_eq:
  "default_config =
     \<lparr>DEFAULT_MODEL = lit ''lyria-002'', MAX_ATTEMPTS = 1, BASE_DELAY_MS = 1200,
      MIN_INTERVAL_MS = 2000, HARD_COOLDOWN_MS = 7000\<rparr>"
  by (simp add: default_config_def load_config_def no_environment_def or_default_def)

lemma three_attempts_eq:
  "three_attempts =
     \<lparr>DEFAULT_MODEL = lit ''lyria-002'', MAX_ATTEMPTS = 3, BASE_DELAY_MS = 1200,
      MIN_INTERVAL_MS = 2000, HARD_COOLDOWN_MS = 7000\<rparr>"
  by (simp add: three_attempts_def load_config_def no_environment_def or_default_def)

lemmas sample_defs =
  sample_request_def sample_payload_def sample_call_def idle_state_def busy_state_def
  audio_part_def inline_part_def both_part_def empty_part_def error_429_def error_401_def
  no_jitter_def after_first_def

lemmas segment_defs =
  handler_def modelName_of_def respond_def generateFromPrompt_def for_attempt_def
  handler_settled_def on_settled_def catch_attempt_def handler_timer_def on_timer_def
  first_parts_def has_data_def shouldRetry_def err_text_def new_Error_def requestPayload_def
  busy_response_def bad_request_def audio_response_def failure_response_def
  trim_def is_js_space_def lit_def timeout_ms_def

lemma sample_request_valid:
  "is_string (prompt sample_request)"
  "trim (str_of (prompt sample_request)) \<noteq> []"
  "length (trim (str_of (prompt sample_request))) \<le> 500"
  by (simp_all add: sample_request_def trim_def is_js_space_def lit_def)

lemma sample_handler_pacing:
  "handler default_config idle_state sample_request 1500 =
     (busy_state, Sleep 1500 (Pacing sample_payload (lit ''lyria-002'')))"
  by (simp add: default_config_eq sample_defs segment_defs)

lemma sample_handler_direct:
  "handler default_config idle_state sample_request 5000 =
     (busy_state, GenerateContent (sample_call 1))"
  "handler three_attempts idle_state sample_request 5000 =
     (busy_state, GenerateContent (sample_call 1))"
  by (simp_all add: default_config_eq three_attempts_eq sample_defs segment_defs)

subsection \<open>The busy flag\<close>

lemma released_respond: "released (respond y)"
  by (cases y) (simp add: respond_def released_def split: outcome.splits sum.splits)

lemma released_handler: "\<not> isGenerating st \<Longrightarrow> released (handler cfg st req now)"
  using released_respond
  by (simp add: handler_def Let_def) (simp add: released_def)

lemma run_released:
  "run cfg delay now x lates replies = Some (st', r, calls) \<Longrightarrow> released x \<Longrightarrow>
     \<not> isGenerating st'"
proof (induction cfg delay now x lates replies arbitrary: st' r calls rule: run.induct)
  case (1 cfg delay now st r lates replies)
  then show ?case by (simp add: released_def)
next
  case (2 cfg delay now st ms t replies)
  then show ?case by simp
next
  case (3 cfg delay now st ms t late lates replies)
  then show ?case by (simp add: handler_timer_def released_respond)
next
  case (4 cfg delay now st c lates)
  then show ?case by simp
next
  case (5 cfg delay now st c lates took r replies)
  then show ?case
    by (auto simp: handler_settled_def released_respond split: option.splits)
qed

text \<open>
  A request does complete once the model client has settled each of its calls: with
  \<open>MAX_ATTEMPTS\<close> replies and timers at hand, \<open>serve\<close> returns a response.
\<close>

lemma attempts_complete:
  "k = nat (MAX_ATTEMPTS cfg - a) \<Longrightarrow> a \<le> MAX_ATTEMPTS cfg \<Longrightarrow> k < length replies \<Longrightarrow>
     k \<le> length lates \<Longrightarrow>
     \<exists>res. run cfg delay now (st, GenerateContent (Attempt p m a)) lates replies = Some res"
proof (induction k arbitrary: a now st lates replies)
  case 0
  then have a: "a = MAX_ATTEMPTS cfg" by simp
  from 0 obtain took rep replies' where replies: "replies = (took, rep) # replies'"
    by (cases replies) auto
  show ?case
  proof (cases rep)
    case (Resolved resp)
    then show ?thesis using replies
      by (cases "scan_parts (first_parts resp)")
         (simp_all add: settled_resolved_audio settled_resolved_no_audio)
  next
    case (Rejected err)
    then show ?thesis using replies a by (simp add: settled_rejected)
  qed
next
  case (Suc k)
  then have a: "a < MAX_ATTEMPTS cfg" by simp
  from Suc obtain took rep replies' where replies: "replies = (took, rep) # replies'"
    by (cases replies) auto
  from Suc obtain late lates' where lates: "lates = late # lates'"
    by (cases lates) auto
  show ?case
  proof (cases rep)
    case (Resolved resp)
    then show ?thesis using replies
      by (cases "scan_parts (first_parts resp)")
         (simp_all add: settled_resolved_audio settled_resolved_no_audio)
  next
    case (Rejected err)
    have "\<exists>res. run cfg delay (now + int took + timeout_ms (delay a) + int late)
             (st, GenerateContent (Attempt p m (a + 1))) lates' replies' = Some res"
      by (rule Suc.IH) (use Suc.prems replies lates a in simp_all)
    then show ?thesis using replies lates a Rejected
      by (auto simp add: settled_rejected timer_backoff)
  qed
qed

lemma serve_completes:
  assumes "1 \<le> MAX_ATTEMPTS cfg" "nat (MAX_ATTEMPTS cfg) \<le> length replies"
    "nat (MAX_ATTEMPTS cfg) \<le> length lates"
  shows "\<exists>res. serve cfg delay st req now lates replies = Some res"
proof -
  from handler_cases [of cfg st req now] show ?thesis
  proof (elim disjE exE)
    fix r0 assume "handler cfg st req now = (st, Finished r0)"
    then show ?thesis by (simp add: serve_def)
  next
    let ?st = "st\<lparr>isGenerating := True\<rparr>"
    let ?p = "requestPayload (trim (str_of (prompt req)))"
    assume h: "handler cfg st req now =
      respond (?st, generateFromPrompt cfg ?st (trim (str_of (prompt req)))
                      (modelName_of cfg req) now)"
    from assms obtain late lates' where lates: "lates = late # lates'"
      by (cases lates) auto
    have go: "\<exists>res. run cfg delay t (?st, GenerateContent (Attempt ?p (modelName_of cfg req) 1))
                       ls replies = Some res"
      if "nat (MAX_ATTEMPTS cfg) - 1 \<le> length ls" for t ls
      by (rule attempts_complete [OF refl]) (use assms that in simp_all)
    show ?thesis
    proof (cases "now - lastCallAtMs st < MIN_INTERVAL_MS cfg")
      case True
      with h lates go [of lates'] assms show ?thesis
        by (simp add: serve_def generateFromPrompt_def respond_def timer_pacing)
    next
      case False
      with h go [of lates] assms show ?thesis
        by (simp add: serve_def generateFromPrompt_def respond_def for_attempt_def)
    qed
  qed
qed

text \<open>
  Claim C1. Every request that passes the busy gate (\<open>isGenerating\<close> is false when it
  arrives) leaves \<open>isGenerating\<close> false when it completes, whatever its response: the audio,
  \<open>NO_AUDIO_IN_RESPONSE\<close>, an error that is not retried or the error of the last attempt.
  The next request therefore finds the gate open.
\<close>

theorem busy_flag_released:
  "\<not> isGenerating st \<Longrightarrow> serve cfg delay st req now lates replies = Some (st', resp, calls)
     \<Longrightarrow> \<not> isGenerating st'"
  unfolding serve_def using run_released released_handler by blast

theorem busy_flag_released_witness:
  "\<not> isGenerating idle_state \<and>
   serve default_config no_jitter idle_state sample_request 5000 []
       [(100, Resolved [[empty_part]])] =
     Some (\<lparr>lastCallAtMs = 5100, lastSuccessAtMs = 5100, isGenerating = False\<rparr>,
           failure_response (new_Error (lit ''NO_AUDIO_IN_RESPONSE'')),
           [(5000, sample_call 1)]) \<and>
   \<not> isGenerating \<lparr>lastCallAtMs = 5100, lastSuccessAtMs = 5100, isGenerating = False\<rparr>"
proof -
  have idle: "\<not> isGenerating idle_state"
    by (simp add: idle_state_def)
  have served:
    "serve default_config no_jitter idle_state sample_request 5000 []
         [(100, Resolved [[empty_part]])] =
       Some (\<lparr>lastCallAtMs = 5100, lastSuccessAtMs = 5100, isGenerating = False\<rparr>,
             failure_response (new_Error (lit ''NO_AUDIO_IN_RESPONSE'')),
             [(5000, sample_call 1)])"
    by (simp add: serve_def sample_handler_direct)
       (simp add: settled_resolved_no_audio first_parts_def empty_part_def has_data_def
          busy_state_def)
  from busy_flag_released [OF idle served] idle served show ?thesis
    by simp
qed

text \<open>
  Claim C7. A request that arrives while \<open>isGenerating\<close> is true is answered with status
  429 and \<open>retryAfterMs = max(0, HARD_COOLDOWN_MS - (now - lastSuccessAtMs))\<close>, which is
  never negative; the state is unchanged and the model client is not called.
\<close>

theorem busy_gate_rejects:
  assumes "isGenerating st"
  shows "handler cfg st req now =
           (st, Finished \<lparr>status = 429,
                          json = BusyJson (lit ''Server busy, try again'')
                                   (max 0 (HARD_COOLDOWN_MS cfg - (now - lastSuccessAtMs st)))\<rparr>) \<and>
         0 \<le> max 0 (HARD_COOLDOWN_MS cfg - (now - lastSuccessAtMs st)) \<and>
         serve cfg delay st req now lates replies =
           Some (st, busy_response (max 0 (HARD_COOLDOWN_MS cfg - (now - lastSuccessAtMs st))), [])"
  using assms by (simp add: handler_busy serve_def) (simp add: busy_response_def)

theorem busy_gate_rejects_witness:
  "isGenerating busy_state \<and>
   handler default_config busy_state sample_request 3000 =
     (busy_state, Finished \<lparr>status = 429,
                             json = BusyJson (lit ''Server busy, try again'') 5000\<rparr>) \<and>
   serve default_config no_jitter busy_state sample_request 3000 [0] [(100, Resolved [[audio_part ''QUJD'']])] =
     Some (busy_state, busy_response 5000, [])"
proof -
  have busy: "isGenerating busy_state"
    by (simp add: busy_state_def)
  from busy_gate_rejects [OF busy, of default_config sample_request 3000 no_jitter "[0]"
      "[(100, Resolved [[audio_part ''QUJD'']])]"] busy
  show ?thesis
    by (simp add: default_config_eq busy_state_def)
qed

subsection \<open>The retry policy\<close>

lemma for_attempt_bound:
  "for_attempt cfg p m a e = GenerateContent c \<Longrightarrow> c = Attempt p m a \<and> a \<le> MAX_ATTEMPTS cfg"
  by (simp add: for_attempt_def split: if_splits)

text \<open>
  Claim C2. When an attempt (numbered at most \<open>MAX_ATTEMPTS\<close>) is rejected, the request
  backs off and then makes the next attempt exactly when the error text contains one of
  \<open>429\<close>, \<open>RESOURCE_EXHAUSTED\<close>, \<open>rate\<close>, \<open>Quota\<close>, \<open>503\<close> and the attempt is not
  attempt \<open>MAX_ATTEMPTS\<close>; otherwise the request fails at once with that error. With
  \<open>MAX_ATTEMPTS = 3\<close>, an error containing \<open>401\<close> and none of the five ends the request
  after the single call of attempt 1.
\<close>

theorem retry_policy:
  assumes "attempt \<le> MAX_ATTEMPTS cfg"
  shows "(spec_retryable err \<and> attempt \<noteq> MAX_ATTEMPTS cfg \<longrightarrow>
            handler_settled cfg delay st (Attempt p m attempt) (Rejected err) now =
              (st, Sleep (delay attempt) (Backoff p m attempt err)) \<and>
            handler_timer cfg st (Backoff p m attempt err) =
              (st, GenerateContent (Attempt p m (attempt + 1)))) \<and>
         (\<not> (spec_retryable err \<and> attempt \<noteq> MAX_ATTEMPTS cfg) \<longrightarrow>
            handler_settled cfg delay st (Attempt p m attempt) (Rejected err) now =
              (st\<lparr>isGenerating := False\<rparr>, Finished (failure_response err))) \<and>
         (MAX_ATTEMPTS cfg = 3 \<and> sublist (lit ''401'') (err_text err) \<and> \<not> spec_retryable err \<longrightarrow>
            run cfg delay now (st, GenerateContent (Attempt p m 1)) lates
                ((took, Rejected err) # replies) =
              Some (st\<lparr>isGenerating := False\<rparr>, failure_response err, [(now, Attempt p m 1)]))"
proof (intro conjI impI)
  assume r: "spec_retryable err \<and> attempt \<noteq> MAX_ATTEMPTS cfg"
  then show "handler_settled cfg delay st (Attempt p m attempt) (Rejected err) now =
              (st, Sleep (delay attempt) (Backoff p m attempt err))"
    by (simp add: settled_rejected shouldRetry_spec)
  from r assms have "attempt < MAX_ATTEMPTS cfg" by simp
  then show "handler_timer cfg st (Backoff p m attempt err) =
              (st, GenerateContent (Attempt p m (attempt + 1)))"
    by (rule timer_backoff)
next
  assume "\<not> (spec_retryable err \<and> attempt \<noteq> MAX_ATTEMPTS cfg)"
  then show "handler_settled cfg delay st (Attempt p m attempt) (Rejected err) now =
              (st\<lparr>isGenerating := False\<rparr>, Finished (failure_response err))"
    by (simp add: settled_rejected shouldRetry_spec)
next
  assume "MAX_ATTEMPTS cfg = 3 \<and> sublist (lit ''401'') (err_text err) \<and> \<not> spec_retryable err"
  then have "handler_settled cfg delay st (Attempt p m 1) (Rejected err) (now + int took) =
               (st\<lparr>isGenerating := False\<rparr>, Finished (failure_response err))"
    by (simp add: settled_rejected shouldRetry_spec)
  then show "run cfg delay now (st, GenerateContent (Attempt p m 1)) lates
                ((took, Rejected err) # replies) =
              Some (st\<lparr>isGenerating := False\<rparr>, failure_response err, [(now, Attempt p m 1)])"
    by simp
qed

theorem retry_policy_witness:
  "(1::int) \<le> MAX_ATTEMPTS three_attempts \<and>
   spec_retryable error_429 \<and>
   handler_settled three_attempts no_jitter busy_state (sample_call 1) (Rejected error_429) 6000 =
     (busy_state, Sleep 1200 (Backoff sample_payload (lit ''lyria-002'') 1 error_429)) \<and>
   handler_timer three_attempts busy_state (Backoff sample_payload (lit ''lyria-002'') 1 error_429) =
     (busy_state, GenerateContent (sample_call 2)) \<and>
   handler_settled three_attempts no_jitter busy_state (sample_call 3) (Rejected error_429) 9000 =
     (idle_state, Finished (failure_response error_429)) \<and>
   MAX_ATTEMPTS three_attempts = 3 \<and>
   sublist (lit ''401'') (err_text error_401) \<and>
   \<not> spec_retryable error_401 \<and>
   run three_attempts no_jitter 5000 (busy_state, GenerateContent (sample_call 1)) [0, 0]
       [(100, Rejected error_401), (100, Resolved [[audio_part ''QUJD'']])] =
     Some (idle_state, failure_response error_401, [(5000, sample_call 1)])"
proof -
  have max: "MAX_ATTEMPTS three_attempts = 3"
    by (simp add: three_attempts_eq)
  have "shouldRetry error_429"
    by (simp add: error_429_def shouldRetry_def err_text_def new_Error_def lit_def)
  then have r429: "spec_retryable error_429"
    by (simp add: shouldRetry_spec)
  have "\<not> shouldRetry error_401"
    by (simp add: error_401_def shouldRetry_def err_text_def new_Error_def lit_def)
  then have r401: "\<not> spec_retryable error_401"
    by (simp add: shouldRetry_spec)
  have "str_includes (err_text error_401) (lit ''401'')"
    by (simp add: error_401_def err_text_def new_Error_def lit_def)
  then have s401: "sublist (lit ''401'') (err_text error_401)"
    by (simp add: str_includes_sublist)
  have upd: "busy_state\<lparr>isGenerating := False\<rparr> = idle_state"
    by (simp add: busy_state_def idle_state_def)
  have first:
    "handler_settled three_attempts no_jitter busy_state (sample_call 1) (Rejected error_429) 6000 =
       (busy_state, Sleep 1200 (Backoff sample_payload (lit ''lyria-002'') 1 error_429)) \<and>
     handler_timer three_attempts busy_state (Backoff sample_payload (lit ''lyria-002'') 1 error_429) =
       (busy_state, GenerateContent (sample_call 2))"
    using retry_policy [where attempt = 1 and cfg = three_attempts and err = error_429
        and delay = no_jitter and st = busy_state and p = sample_payload
        and m = "lit ''lyria-002''" and now = 6000] r429 max
    by (simp add: sample_call_def no_jitter_def)
  have last:
    "handler_settled three_attempts no_jitter busy_state (sample_call 3) (Rejected error_429) 9000 =
       (idle_state, Finished (failure_response error_429))"
    using retry_policy [where attempt = 3 and cfg = three_attempts and err = error_429
        and delay = no_jitter and st = busy_state and p = sample_payload
        and m = "lit ''lyria-002''" and now = 9000] max upd
    by (simp add: sample_call_def)
  have unauthorized:
    "run three_attempts no_jitter 5000 (busy_state, GenerateContent (sample_call 1)) [0, 0]
         [(100, Rejected error_401), (100, Resolved [[audio_part ''QUJD'']])] =
       Some (idle_state, failure_response error_401, [(5000, sample_call 1)])"
    using retry_policy [where attempt = 1 and cfg = three_attempts and err = error_401
        and delay = no_jitter and st = busy_state and p = sample_payload
        and m = "lit ''lyria-002''" and now = 5000 and lates = "[0, 0]" and took = 100
        and replies = "[(100, Resolved [[audio_part ''QUJD'']])]"] max r401 s401 upd
    by (simp add: sample_call_def)
  from max r429 r401 s401 first last unauthorized show ?thesis
    by simp
qed

subsection \<open>The timestamps\<close>

lemma settled_rejected_state:
  "fst (handler_settled cfg delay st task (Rejected err) now) = st \<or>
   fst (handler_settled cfg delay st task (Rejected err) now) = st\<lparr>isGenerating := False\<rparr>"
  by (cases task) (simp add: settled_rejected)

lemma settled_resolved_state:
  "fst (handler_settled cfg delay st task (Resolved resp) now) =
     st\<lparr>lastCallAtMs := now, lastSuccessAtMs := now, isGenerating := False\<rparr>"
  by (cases "scan_parts (first_parts resp)")
     (simp_all add: settled_resolved_audio settled_resolved_no_audio)

text \<open>
  Claim C3. \<open>lastCallAtMs\<close> is to hold the time of the most recently attempted call of the
  model client, whether the call resolves or throws; the pacing step, which reads it, is
  there to keep a minimal interval between calls (comment of line 82). The code does not
  do this for a call that throws: line 96 is the only assignment and a rejected
  \<open>generateContent\<close> skips it. Here \<open>lastCallAtMs\<close> is 1000; a call dispatched at 5000
  is rejected with a 429 at 5100 and leaves \<open>lastCallAtMs\<close> at 1000, not 5100; the next
  request, arriving at 5150, is then dispatched at once, 150 ms after the previous call,
  although \<open>MIN_INTERVAL_MS\<close> is 2000.
\<close>

theorem failed_call_not_stamped:
  "lastCallAtMs idle_state = 1000 \<and>
   MIN_INTERVAL_MS default_config = 2000 \<and>
   serve default_config no_jitter idle_state sample_request 5000 []
       [(100, Rejected error_429)] =
     Some (idle_state, failure_response error_429, [(5000, sample_call 1)]) \<and>
   lastCallAtMs (fst (handler_settled default_config no_jitter busy_state (sample_call 1)
                        (Rejected error_429) 5100)) = 1000 \<and>
   lastCallAtMs (fst (handler_settled default_config no_jitter busy_state (sample_call 1)
                        (Rejected error_429) 5100)) \<noteq> 5100 \<and>
   serve default_config no_jitter idle_state sample_request 5150 []
       [(100, Resolved [[audio_part ''QUJD'']])] =
     Some (\<lparr>lastCallAtMs = 5250, lastSuccessAtMs = 5250, isGenerating = False\<rparr>,
           audio_response (lit ''QUJD''), [(5150, sample_call 1)])"
proof -
  have "serve default_config no_jitter idle_state sample_request 5000 []
          [(100, Rejected error_429)] =
        Some (idle_state, failure_response error_429, [(5000, sample_call 1)])"
    by (simp add: serve_def sample_handler_direct)
       (simp add: sample_call_def settled_rejected default_config_eq busy_state_def
          idle_state_def)
  moreover have
    "lastCallAtMs (fst (handler_settled default_config no_jitter busy_state (sample_call 1)
                          (Rejected error_429) 5100)) = 1000"
    by (simp add: sample_call_def settled_rejected busy_state_def)
  moreover have
    "serve default_config no_jitter idle_state sample_request 5150 []
         [(100, Resolved [[audio_part ''QUJD'']])] =
       Some (\<lparr>lastCallAtMs = 5250, lastSuccessAtMs = 5250, isGenerating = False\<rparr>,
             audio_response (lit ''QUJD''), [(5150, sample_call 1)])"
    by (simp add: serve_def default_config_eq sample_defs segment_defs)
  ultimately show ?thesis
    by (simp add: idle_state_def default_config_eq)
qed

subsection \<open>Audio extraction\<close>






text \<open>
  Claim C10, as stated, fails: line 101 tests the value of \<open>audioData.data\<close> for
  truthiness, so a part that carries both fields with the empty string in
  \<open>audioData.data\<close> is passed on to line 102 and yields its \<open>inlineData.data\<close>.
\<close>

theorem empty_audioData_falls_through:
  "audioData \<lparr>audioData = Some [], inlineData = Some (lit ''Qg=='')\<rparr> = Some [] \<and>
   inlineData \<lparr>audioData = Some [], inlineData = Some (lit ''Qg=='')\<rparr> = Some (lit ''Qg=='') \<and>
   scan_parts [\<lparr>audioData = Some [], inlineData = Some (lit ''Qg=='')\<rparr>] = Some (lit ''Qg=='') \<and>
   scan_parts [\<lparr>audioData = Some [], inlineData = Some (lit ''Qg=='')\<rparr>] \<noteq> Some [] \<and>
   handler_settled default_config no_jitter busy_state (sample_call 1)
       (Resolved [[\<lparr>audioData = Some [], inlineData = Some (lit ''Qg=='')\<rparr>]]) 9000 =
     (\<lparr>lastCallAtMs = 9000, lastSuccessAtMs = 9000, isGenerating = False\<rparr>,
      Finished (audio_response (lit ''Qg=='')))"
proof -
  have s: "scan_parts [\<lparr>audioData = Some [], inlineData = Some (lit ''Qg=='')\<rparr>] =
             Some (lit ''Qg=='')"
    by (simp add: has_data_def lit_def)
  have "lit ''Qg=='' \<noteq> []"
    by (simp add: lit_def)
  with s settled_resolved_audio [of "[[\<lparr>audioData = Some [], inlineData = Some (lit ''Qg=='')\<rparr>]]"
      "lit ''Qg==''" default_config no_jitter busy_state "sample_call 1" 9000]
  show ?thesis
    by (simp add: first_parts_def busy_state_def del: scan_parts.simps)
qed

text \<open>
  Claim C10, amended. A part whose \<open>audioData.data\<close> is truthy (a non-empty string) and
  that also carries an \<open>inlineData.data\<close> field yields the \<open>audioData.data\<close> value:
  within one part \<open>audioData\<close> is tested first.
\<close>

theorem audioData_before_inlineData:
  assumes "audioData p = Some a" "has_data (audioData p)" "inlineData p = Some b"
  shows "scan_parts (p # ps) = Some a \<and>
         handler_settled cfg delay st task (Resolved ((p # ps) # cands)) now =
           (st\<lparr>lastCallAtMs := now, lastSuccessAtMs := now, isGenerating := False\<rparr>,
            Finished (audio_response a))"
proof -
  from assms have s: "scan_parts (p # ps) = Some a" by simp
  then show ?thesis by (simp add: settled_resolved_audio first_parts_def)
qed

theorem audioData_before_inlineData_witness:
  "audioData (both_part ''QQ=='' ''Qg=='') = Some (lit ''QQ=='') \<and>
   has_data (audioData (both_part ''QQ=='' ''Qg=='')) \<and>
   inlineData (both_part ''QQ=='' ''Qg=='') = Some (lit ''Qg=='') \<and>
   scan_parts [both_part ''QQ=='' ''Qg==''] = Some (lit ''QQ=='') \<and>
   handler_settled default_config no_jitter busy_state (sample_call 1)
       (Resolved [[both_part ''QQ=='' ''Qg=='']]) 9000 =
     (\<lparr>lastCallAtMs = 9000, lastSuccessAtMs = 9000, isGenerating = False\<rparr>,
      Finished (audio_response (lit ''QQ=='')))"
proof -
  have h: "audioData (both_part ''QQ=='' ''Qg=='') = Some (lit ''QQ=='')"
    "has_data (audioData (both_part ''QQ=='' ''Qg==''))"
    "inlineData (both_part ''QQ=='' ''Qg=='') = Some (lit ''Qg=='')"
    by (simp_all add: both_part_def has_data_def lit_def)
  have upd: "busy_state\<lparr>lastCallAtMs := 9000, lastSuccessAtMs := 9000, isGenerating := False\<rparr> =
               \<lparr>lastCallAtMs = 9000, lastSuccessAtMs = 9000, isGenerating = False\<rparr>"
    by (simp add: busy_state_def)
  from audioData_before_inlineData [OF h, of "[]" default_config no_jitter busy_state
      "sample_call 1" "[]" 9000, unfolded upd] h
  show ?thesis by blast
qed

subsection \<open>The order of gate, mark and pacing\<close>

text \<open>
  Claim C4, as stated, fails: the handler sets \<open>isGenerating\<close> before it calls
  \<open>generateFromPrompt\<close>, whose first step is the pacing wait. A request that arrives at
  time 1500, 500 ms after the last call, is suspended in the pacing \<open>sleep\<close> with the flag
  already true, and a request that arrives at 1600, during that wait, is answered 429.
\<close>

theorem busy_during_pacing:
  "handler default_config idle_state sample_request 1500 =
     (busy_state, Sleep 1500 (Pacing sample_payload (lit ''lyria-002''))) \<and>
   isGenerating busy_state \<and>
   handler default_config busy_state sample_request 1600 =
     (busy_state, Finished (busy_response 6400)) \<and>
   status (busy_response 6400) = 429"
proof -
  have busy: "isGenerating busy_state"
    by (simp add: busy_state_def)
  have "max 0 (HARD_COOLDOWN_MS default_config - (1600 - lastSuccessAtMs busy_state)) = 6400"
    by (simp add: busy_state_def default_config_eq)
  with handler_busy [OF busy, of default_config sample_request 1600]
  have "handler default_config busy_state sample_request 1600 =
          (busy_state, Finished (busy_response 6400))"
    by simp
  with busy sample_handler_pacing show ?thesis
    by (simp add: busy_response_def)
qed

text \<open>
  Claim C4, amended. The handler performs its steps in the order: busy gate, then marking
  \<open>isGenerating = true\<close>, then the pacing wait. While an accepted request is suspended in
  the pacing wait the flag is true, and every request that arrives during that wait is
  rejected by the busy gate with status 429.
\<close>

theorem gate_marked_before_pacing:
  assumes "\<not> isGenerating st" "is_string (prompt req)"
    "trim (str_of (prompt req)) \<noteq> []" "length (trim (str_of (prompt req))) \<le> 500"
    "now - lastCallAtMs st < MIN_INTERVAL_MS cfg"
  shows "handler cfg st req now =
           (st\<lparr>isGenerating := True\<rparr>,
            Sleep (MIN_INTERVAL_MS cfg - (now - lastCallAtMs st))
              (Pacing (requestPayload (trim (str_of (prompt req)))) (modelName_of cfg req))) \<and>
         isGenerating (fst (handler cfg st req now)) \<and>
         handler cfg (fst (handler cfg st req now)) req' now' =
           (st\<lparr>isGenerating := True\<rparr>,
            Finished (busy_response (max 0 (HARD_COOLDOWN_MS cfg - (now' - lastSuccessAtMs st))))) \<and>
         status (busy_response (max 0 (HARD_COOLDOWN_MS cfg - (now' - lastSuccessAtMs st)))) = 429"
  using assms by (simp add: handler_pacing handler_busy) (simp add: busy_response_def)

theorem gate_marked_before_pacing_witness:
  "\<not> isGenerating idle_state \<and> is_string (prompt sample_request) \<and>
   trim (str_of (prompt sample_request)) \<noteq> [] \<and>
   length (trim (str_of (prompt sample_request))) \<le> 500 \<and>
   1500 - lastCallAtMs idle_state < MIN_INTERVAL_MS default_config \<and>
   isGenerating (fst (handler default_config idle_state sample_request 1500)) \<and>
   handler default_config (fst (handler default_config idle_state sample_request 1500))
       sample_request 1600 =
     (busy_state, Finished (busy_response 6400))"
proof -
  have idle: "\<not> isGenerating idle_state"
    and since: "1500 - lastCallAtMs idle_state < MIN_INTERVAL_MS default_config"
    by (simp_all add: idle_state_def default_config_eq)
  have upd: "idle_state\<lparr>isGenerating := True\<rparr> = busy_state"
    by (simp add: idle_state_def busy_state_def)
  have left: "max 0 (HARD_COOLDOWN_MS default_config - (1600 - lastSuccessAtMs idle_state)) = 6400"
    by (simp add: idle_state_def default_config_eq)
  from gate_marked_before_pacing [OF idle sample_request_valid since, of sample_request 1600,
      unfolded upd left]
    idle since sample_request_valid
  show ?thesis by blast
qed

subsection \<open>Blank prompts\<close>

text \<open>
  Claim C5, as stated, fails twice. The empty string is answered with
  \<open>Invalid prompt\<close>, not with \<open>Prompt cannot be empty\<close>, because \<open>!prompt\<close> is tested
  first; and the busy gate comes before the validation, so a blank prompt that arrives while
  a generation is in flight is answered 429, not 400.
\<close>

theorem blank_prompt_other_answers:
  "length (trim []) = 0 \<and>
   handler default_config idle_state \<lparr>prompt = JStr [], model = JUndefined\<rparr> 5000 =
     (idle_state, Finished (bad_request (lit ''Invalid prompt''))) \<and>
   lit ''Invalid prompt'' \<noteq> lit ''Prompt cannot be empty'' \<and>
   length (trim (lit ''   '')) = 0 \<and>
   handler default_config busy_state \<lparr>prompt = JStr (lit ''   ''), model = JUndefined\<rparr> 5000 =
     (busy_state, Finished (busy_response 3000)) \<and>
   status (busy_response 3000) = 429"
  by (simp add: handler_busy)
     (simp add: handler_def idle_state_def busy_state_def default_config_eq trim_def
        is_js_space_def lit_def busy_response_def)

text \<open>
  Claim C5, amended. A request that arrives while no generation is in flight and whose
  prompt is a string of trimmed length 0 is rejected with status 400 and the model client is
  never called; the error is \<open>Invalid prompt\<close> for the empty string and
  \<open>Prompt cannot be empty\<close> for a string of white space.
\<close>

theorem blank_prompt_rejected:
  assumes "\<not> isGenerating st" "is_string (prompt req)" "length (trim (str_of (prompt req))) = 0"
  shows "handler cfg st req now =
           (st, Finished \<lparr>status = 400,
                          json = ErrorJson (if str_of (prompt req) = [] then lit ''Invalid prompt''
                                            else lit ''Prompt cannot be empty'')\<rparr>) \<and>
         serve cfg delay st req now lates replies =
           Some (st, bad_request (if str_of (prompt req) = [] then lit ''Invalid prompt''
                                  else lit ''Prompt cannot be empty''), [])"
  using assms handler_blank [of st req cfg now]
  by (simp add: serve_def) (simp add: bad_request_def)

theorem blank_prompt_rejected_witness:
  "\<not> isGenerating idle_state \<and>
   is_string (JStr (lit ''   '')) \<and> length (trim (str_of (JStr (lit ''   '')))) = 0 \<and>
   serve default_config no_jitter idle_state \<lparr>prompt = JStr (lit ''   ''), model = JUndefined\<rparr>
       5000 [0] [(100, Resolved [[audio_part ''QUJD'']])] =
     Some (idle_state, bad_request (lit ''Prompt cannot be empty''), []) \<and>
   is_string (JStr []) \<and> length (trim (str_of (JStr []))) = 0 \<and>
   serve default_config no_jitter idle_state \<lparr>prompt = JStr [], model = JUndefined\<rparr>
       5000 [0] [(100, Resolved [[audio_part ''QUJD'']])] =
     Some (idle_state, bad_request (lit ''Invalid prompt''), [])"
proof -
  have idle: "\<not> isGenerating idle_state"
    by (simp add: idle_state_def)
  have blank: "length (trim (str_of (JStr (lit ''   '')))) = 0" "lit ''   '' \<noteq> []"
    and none: "length (trim (str_of (JStr []))) = 0"
    by (simp_all add: trim_def is_js_space_def lit_def)
  from blank_prompt_rejected [where st = idle_state
      and req = "\<lparr>prompt = JStr (lit ''   ''), model = JUndefined\<rparr>"
      and cfg = default_config and delay = no_jitter and now = 5000 and lates = "[0]"
      and replies = "[(100, Resolved [[audio_part ''QUJD'']])]"]
    blank_prompt_rejected [where st = idle_state
      and req = "\<lparr>prompt = JStr [], model = JUndefined\<rparr>"
      and cfg = default_config and delay = no_jitter and now = 5000 and lates = "[0]"
      and replies = "[(100, Resolved [[audio_part ''QUJD'']])]"]
    idle blank none
  show ?thesis by simp
qed

subsection \<open>Pacing\<close>

lemma run_dispatch_after:
  "run cfg delay now x lates replies = Some (st', r, calls) \<Longrightarrow> (d, c) \<in> set calls \<Longrightarrow> now \<le> d"
proof (induction cfg delay now x lates replies arbitrary: st' r calls rule: run.induct)
  case (3 cfg delay now st ms t late lates replies)
  from "3.IH" [OF "3.prems"(1) [simplified] "3.prems"(2)] timeout_ms_pos [of ms]
  show ?case by simp
next
  case (5 cfg delay now st c' lates took rep replies)
  from "5.prems"(1) obtain calls' where
    rec: "run cfg delay (now + int took)
            (handler_settled cfg delay st c' rep (now + int took)) lates replies =
          Some (st', r, calls')" and calls: "calls = (now, c') # calls'"
    by (auto split: option.splits)
  show ?case
  proof (cases "(d, c) = (now, c')")
    case True
    then show ?thesis by simp
  next
    case False
    with calls "5.prems"(2) have "(d, c) \<in> set calls'" by auto
    from "5.IH" [OF rec this] show ?thesis by simp
  qed
qed simp_all

lemma stamp_ok_settled: "stamp_ok now (handler_settled cfg delay st task rep now)"
proof (cases rep)
  case (Resolved resp)
  then show ?thesis
    by (cases "scan_parts (first_parts resp)")
       (simp_all add: settled_resolved_audio settled_resolved_no_audio stamp_ok_def)
next
  case (Rejected err)
  then show ?thesis
    by (cases task) (simp add: settled_rejected stamp_ok_def failure_response_def)
qed

lemma stamp_ok_timer: "stamp_ok now (handler_timer cfg st t)"
  by (cases t)
     (simp_all add: handler_timer_def on_timer_def for_attempt_def respond_def stamp_ok_def
        failure_response_def)

lemma stamp_ok_handler: "stamp_ok now (handler cfg st req now')"
  by (simp add: handler_def Let_def generateFromPrompt_def for_attempt_def respond_def
      stamp_ok_def busy_response_def bad_request_def failure_response_def)

lemma run_success_stamp:
  "run cfg delay now x lates replies = Some (st', r, calls) \<Longrightarrow> status r = 200 \<Longrightarrow>
     stamp_ok now x \<Longrightarrow> now \<le> lastCallAtMs st' \<and> (\<forall>(d, c)\<in>set calls. d \<le> lastCallAtMs st')"
proof (induction cfg delay now x lates replies arbitrary: st' r calls rule: run.induct)
  case (1 cfg delay now st r0 lates replies)
  then show ?case by (simp add: stamp_ok_def)
next
  case (3 cfg delay now st ms t late lates replies)
  from "3.IH" [OF "3.prems"(1) [simplified] "3.prems"(2) stamp_ok_timer] timeout_ms_pos [of ms]
  show ?case by simp
next
  case (5 cfg delay now st c' lates took rep replies)
  from "5.prems"(1) obtain calls' where
    rec: "run cfg delay (now + int took)
            (handler_settled cfg delay st c' rep (now + int took)) lates replies =
          Some (st', r, calls')" and calls: "calls = (now, c') # calls'"
    by (auto split: option.splits)
  from "5.IH" [OF rec "5.prems"(2) stamp_ok_settled] calls
  show ?case by simp
qed simp_all

lemma serve_success_stamp:
  assumes "serve cfg delay st req now lates replies = Some (st', r, calls)" "status r = 200"
    "(d, c) \<in> set calls"
  shows "d \<le> lastCallAtMs st'"
  using run_success_stamp [OF assms(1) [unfolded serve_def] assms(2) stamp_ok_handler] assms(3)
  by auto

text \<open>
  No call of the model client is dispatched earlier than \<open>MIN_INTERVAL_MS\<close> after
  \<open>lastCallAtMs\<close>, as long as the interval is one that \<open>setTimeout\<close> honours.
\<close>

lemma pacing_run:
  assumes run: "run cfg delay now (respond (st, generateFromPrompt cfg st p m now)) lates replies =
                  Some (st', r, calls)"
    and mono: "lastCallAtMs st \<le> now" and small: "MIN_INTERVAL_MS cfg \<le> 2147483647"
    and mem: "(d, c) \<in> set calls"
  shows "lastCallAtMs st + MIN_INTERVAL_MS cfg \<le> d"
proof (cases "now - lastCallAtMs st < MIN_INTERVAL_MS cfg")
  case True
  define w where "w = MIN_INTERVAL_MS cfg - (now - lastCallAtMs st)"
  from True have resp:
    "respond (st, generateFromPrompt cfg st p m now) = (st, Sleep w (Pacing (requestPayload p) m))"
    by (simp add: generateFromPrompt_def respond_def w_def)
  from True mono small have w: "timeout_ms w = w"
    by (simp add: timeout_ms_def w_def)
  from run resp obtain late lates' where
    "run cfg delay (now + timeout_ms w + int late)
       (handler_timer cfg st (Pacing (requestPayload p) m)) lates' replies = Some (st', r, calls)"
    by (cases lates) simp_all
  from run_dispatch_after [OF this mem] w show ?thesis
    by (simp add: w_def)
next
  case False
  then have "lastCallAtMs st + MIN_INTERVAL_MS cfg \<le> now" by simp
  with run_dispatch_after [OF run mem] show ?thesis by simp
qed

lemma serve_dispatch_paced:
  assumes run: "serve cfg delay st req now lates replies = Some (st', r, calls)"
    and mono: "lastCallAtMs st \<le> now" and small: "MIN_INTERVAL_MS cfg \<le> 2147483647"
    and mem: "(d, c) \<in> set calls"
  shows "lastCallAtMs st + MIN_INTERVAL_MS cfg \<le> d"
proof -
  from handler_cases [of cfg st req now] show ?thesis
  proof (elim disjE exE)
    fix r0 assume "handler cfg st req now = (st, Finished r0)"
    with run mem show ?thesis by (simp add: serve_def)
  next
    assume h: "handler cfg st req now =
      respond (st\<lparr>isGenerating := True\<rparr>,
               generateFromPrompt cfg (st\<lparr>isGenerating := True\<rparr>)
                 (trim (str_of (prompt req))) (modelName_of cfg req) now)"
    from run h
      pacing_run [of cfg delay now "st\<lparr>isGenerating := True\<rparr>" _ _ lates replies st' r calls d c]
      mono small mem
    show ?thesis by (simp add: serve_def)
  qed
qed

text \<open>
  Claim C9. When an accepted request reaches the pacing step less than
  \<open>MIN_INTERVAL_MS\<close> after \<open>lastCallAtMs\<close>, it sleeps for exactly the remaining
  difference and then dispatches attempt 1. With \<open>MIN_INTERVAL_MS = 2000\<close>, when a
  successful request is followed by a second successful one that arrives 500 ms after the
  first one's call, the second one sleeps 1500 ms and each of its dispatches comes at least
  1500 ms after each dispatch of the first.
\<close>

theorem pacing_wait:
  "(\<not> isGenerating st \<and> is_string (prompt req) \<and> trim (str_of (prompt req)) \<noteq> [] \<and>
    length (trim (str_of (prompt req))) \<le> 500 \<and> 1 \<le> MAX_ATTEMPTS cfg \<and>
    now - lastCallAtMs st < MIN_INTERVAL_MS cfg \<longrightarrow>
      handler cfg st req now =
        (st\<lparr>isGenerating := True\<rparr>,
         Sleep (MIN_INTERVAL_MS cfg - (now - lastCallAtMs st))
           (Pacing (requestPayload (trim (str_of (prompt req)))) (modelName_of cfg req))) \<and>
      handler_timer cfg (st\<lparr>isGenerating := True\<rparr>)
          (Pacing (requestPayload (trim (str_of (prompt req)))) (modelName_of cfg req)) =
        (st\<lparr>isGenerating := True\<rparr>,
         GenerateContent (Attempt (requestPayload (trim (str_of (prompt req))))
                            (modelName_of cfg req) 1))) \<and>
   (MIN_INTERVAL_MS cfg = 2000 \<and>
    serve cfg delay1 st0 req1 now1 lates1 replies1 = Some (st1, r1, calls1) \<and> status r1 = 200 \<and>
    now2 = lastCallAtMs st1 + 500 \<and>
    serve cfg delay2 st1 req2 now2 lates2 replies2 = Some (st2, r2, calls2) \<and> status r2 = 200 \<and>
    (d1, c1) \<in> set calls1 \<and> (d2, c2) \<in> set calls2 \<longrightarrow>
      (\<exists>t. handler cfg st1 req2 now2 = (st1\<lparr>isGenerating := True\<rparr>, Sleep 1500 t)) \<and>
      1500 \<le> d2 - d1)"
proof (intro conjI impI)
  assume h: "\<not> isGenerating st \<and> is_string (prompt req) \<and> trim (str_of (prompt req)) \<noteq> [] \<and>
    length (trim (str_of (prompt req))) \<le> 500 \<and> 1 \<le> MAX_ATTEMPTS cfg \<and>
    now - lastCallAtMs st < MIN_INTERVAL_MS cfg"
  then show "handler cfg st req now =
        (st\<lparr>isGenerating := True\<rparr>,
         Sleep (MIN_INTERVAL_MS cfg - (now - lastCallAtMs st))
           (Pacing (requestPayload (trim (str_of (prompt req)))) (modelName_of cfg req)))"
    by (simp add: handler_pacing)
  from h show "handler_timer cfg (st\<lparr>isGenerating := True\<rparr>)
          (Pacing (requestPayload (trim (str_of (prompt req)))) (modelName_of cfg req)) =
        (st\<lparr>isGenerating := True\<rparr>,
         GenerateContent (Attempt (requestPayload (trim (str_of (prompt req))))
                            (modelName_of cfg req) 1))"
    by (simp add: timer_pacing)
next
  assume h: "MIN_INTERVAL_MS cfg = 2000 \<and>
    serve cfg delay1 st0 req1 now1 lates1 replies1 = Some (st1, r1, calls1) \<and> status r1 = 200 \<and>
    now2 = lastCallAtMs st1 + 500 \<and>
    serve cfg delay2 st1 req2 now2 lates2 replies2 = Some (st2, r2, calls2) \<and> status r2 = 200 \<and>
    (d1, c1) \<in> set calls1 \<and> (d2, c2) \<in> set calls2"
  then have min: "MIN_INTERVAL_MS cfg = 2000"
    and s1: "serve cfg delay1 st0 req1 now1 lates1 replies1 = Some (st1, r1, calls1)"
    and ok1: "status r1 = 200" and now2: "now2 = lastCallAtMs st1 + 500"
    and s2: "serve cfg delay2 st1 req2 now2 lates2 replies2 = Some (st2, r2, calls2)"
    and ok2: "status r2 = 200" and m1: "(d1, c1) \<in> set calls1" and m2: "(d2, c2) \<in> set calls2"
    by blast+
  from s1 ok1 m1 have first: "d1 \<le> lastCallAtMs st1"
    by (rule serve_success_stamp)
  have "lastCallAtMs st1 + MIN_INTERVAL_MS cfg \<le> d2"
    by (rule serve_dispatch_paced [OF s2 _ _ m2]) (simp_all add: now2 min)
  with first min show "1500 \<le> d2 - d1" by simp
  from s2 have second:
    "run cfg delay2 now2 (handler cfg st1 req2 now2) lates2 replies2 = Some (st2, r2, calls2)"
    by (simp add: serve_def)
  from handler_cases [of cfg st1 req2 now2]
  show "\<exists>t. handler cfg st1 req2 now2 = (st1\<lparr>isGenerating := True\<rparr>, Sleep 1500 t)"
  proof (elim disjE exE)
    fix r0 assume f: "handler cfg st1 req2 now2 = (st1, Finished r0)"
    with second have "r2 = r0" by simp
    moreover from stamp_ok_handler [of now2 cfg st1 req2 now2] f
    have "status r0 = 200 \<longrightarrow> now2 \<le> lastCallAtMs st1" by (simp add: stamp_ok_def)
    ultimately show ?thesis using ok2 now2 by simp
  next
    assume "handler cfg st1 req2 now2 =
      respond (st1\<lparr>isGenerating := True\<rparr>,
               generateFromPrompt cfg (st1\<lparr>isGenerating := True\<rparr>)
                 (trim (str_of (prompt req2))) (modelName_of cfg req2) now2)"
    with min now2 show ?thesis
      by (simp add: generateFromPrompt_def respond_def)
  qed
qed

theorem pacing_wait_witness:
  "\<not> isGenerating after_first \<and> is_string (prompt sample_request) \<and>
   trim (str_of (prompt sample_request)) \<noteq> [] \<and>
   length (trim (str_of (prompt sample_request))) \<le> 500 \<and>
   1 \<le> MAX_ATTEMPTS default_config \<and>
   5800 - lastCallAtMs after_first < MIN_INTERVAL_MS default_config \<and>
   handler default_config after_first sample_request 5800 =
     (after_first\<lparr>isGenerating := True\<rparr>,
      Sleep 1500 (Pacing sample_payload (lit ''lyria-002''))) \<and>
   handler_timer default_config (after_first\<lparr>isGenerating := True\<rparr>)
       (Pacing sample_payload (lit ''lyria-002'')) =
     (after_first\<lparr>isGenerating := True\<rparr>, GenerateContent (sample_call 1)) \<and>
   MIN_INTERVAL_MS default_config = 2000 \<and>
   serve default_config no_jitter idle_state sample_request 5000 []
       [(300, Resolved [[audio_part ''QUJD'']])] =
     Some (after_first, audio_response (lit ''QUJD''), [(5000, sample_call 1)]) \<and>
   status (audio_response (lit ''QUJD'')) = 200 \<and>
   5800 = lastCallAtMs after_first + 500 \<and>
   serve default_config no_jitter after_first sample_request 5800 [7]
       [(250, Resolved [[inline_part ''REVG'']])] =
     Some (\<lparr>lastCallAtMs = 7557, lastSuccessAtMs = 7557, isGenerating = False\<rparr>,
           audio_response (lit ''REVG''), [(7307, sample_call 1)]) \<and>
   status (audio_response (lit ''REVG'')) = 200 \<and>
   (1500::int) \<le> 7307 - 5000"
proof -
  have idle: "\<not> isGenerating after_first"
    and max: "1 \<le> MAX_ATTEMPTS default_config"
    and since: "5800 - lastCallAtMs after_first < MIN_INTERVAL_MS default_config"
    and min: "MIN_INTERVAL_MS default_config = 2000"
    and gap: "5800 = lastCallAtMs after_first + 500"
    and ok: "status (audio_response (lit ''QUJD'')) = 200"
      "status (audio_response (lit ''REVG'')) = 200"
    by (simp_all add: after_first_def default_config_eq audio_response_def)
  have first:
    "serve default_config no_jitter idle_state sample_request 5000 []
         [(300, Resolved [[audio_part ''QUJD'']])] =
       Some (after_first, audio_response (lit ''QUJD''), [(5000, sample_call 1)])"
    by (simp add: serve_def default_config_eq sample_defs segment_defs)
  have second:
    "serve default_config no_jitter after_first sample_request 5800 [7]
         [(250, Resolved [[inline_part ''REVG'']])] =
       Some (\<lparr>lastCallAtMs = 7557, lastSuccessAtMs = 7557, isGenerating = False\<rparr>,
             audio_response (lit ''REVG''), [(7307, sample_call 1)])"
    by (simp add: serve_def default_config_eq sample_defs segment_defs)
  have vals: "MIN_INTERVAL_MS default_config - (5800 - lastCallAtMs after_first) = 1500"
    "requestPayload (trim (str_of (prompt sample_request))) = sample_payload"
    "modelName_of default_config sample_request = lit ''lyria-002''"
    by (simp_all add: default_config_eq sample_defs modelName_of_def trim_def is_js_space_def
        lit_def)
  note inst = pacing_wait [where st = after_first and req = sample_request
      and cfg = default_config and now = 5800 and ?delay1.0 = no_jitter and ?st0.0 = idle_state
      and ?req1.0 = sample_request and ?now1.0 = 5000 and ?lates1.0 = "[]"
      and ?replies1.0 = "[(300, Resolved [[audio_part ''QUJD'']])]" and ?st1.0 = after_first
      and ?r1.0 = "audio_response (lit ''QUJD'')" and ?calls1.0 = "[(5000, sample_call 1)]"
      and ?now2.0 = 5800 and ?delay2.0 = no_jitter and ?req2.0 = sample_request and ?lates2.0 = "[7]"
      and ?replies2.0 = "[(250, Resolved [[inline_part ''REVG'']])]"
      and ?st2.0 = "\<lparr>lastCallAtMs = 7557, lastSuccessAtMs = 7557, isGenerating = False\<rparr>"
      and ?r2.0 = "audio_response (lit ''REVG'')" and ?calls2.0 = "[(7307, sample_call 1)]"
      and ?d1.0 = 5000 and ?c1.0 = "sample_call 1" and ?d2.0 = 7307 and ?c2.0 = "sample_call 1",
      unfolded vals sample_call_def [symmetric]]
  have m: "(5000, sample_call 1) \<in> set [(5000, sample_call 1)]"
    "(7307, sample_call 1) \<in> set [(7307, sample_call 1)]"
    by simp_all
  from inst idle sample_request_valid max since min first second ok gap m
  show ?thesis by blast
qed

end
